theory Spec2Isabelle
  imports Main
begin

section \<open>Text, bytes and the interpreter\<close>

text \<open>
  The proxy of \<^verbatim>\<open>proxy.py\<close> reads bytes from a socket, decodes them to text, takes the
  text apart with Python's string methods and writes bytes again. A \<^verbatim>\<open>bytes\<close> value is
  a list of 8-bit characters; a \<^verbatim>\<open>str\<close> value is a list of code points, which are
  integers. \<open>lit\<close> turns an ASCII literal of the source into a \<^verbatim>\<open>str\<close>.
\<close>

type_synonym bytes = string

type_synonym str = "int list"

definition lit :: "string \<Rightarrow> str" where
  "lit s = map of_char s"

definition crlf :: bytes where
  "crlf = [CHR 0x0D, CHR 0x0A]"

definition CRLF :: str where
  "CRLF = lit crlf"

text \<open>
  What the handler takes from the interpreter depends on its Unicode tables and on the
  platform, and is a parameter of the model, the record \<open>runtime\<close>:
  \<^item> \<open>decode\<close> is \<^verbatim>\<open>bytes.decode(errors="ignore")\<close> and \<open>encode\<close> is \<^verbatim>\<open>str.encode()\<close>;
    with this error handler the first raises nothing, and the second raises nothing on
    text without surrogates, which is all that \<open>decode\<close> and the case mappings yield;
  \<^item> \<open>isspace\<close> tells the code points that \<^verbatim>\<open>str.split()\<close> and \<^verbatim>\<open>str.strip()\<close> treat as
    white space;
  \<^item> \<open>lower\<close> and \<open>upper\<close> are \<^verbatim>\<open>str.lower()\<close> and \<^verbatim>\<open>str.upper()\<close>, which map strings to
    strings;
  \<^item> \<open>py_int\<close> is \<^verbatim>\<open>int(s)\<close>, with \<open>None\<close> for ValueError;
  \<^item> \<open>ssize_max\<close> is the largest \<^verbatim>\<open>ssize_t\<close> and \<open>alloc_max\<close> the largest size of a
    \<^verbatim>\<open>bytes\<close> object.
  Every theorem about the handler holds for every runtime, so for the interpreter that
  runs the proxy, whatever its version. Only the evaluations at concrete requests choose
  a runtime, \<open>py_ascii\<close> below.
\<close>

record runtime =
  decode :: "bytes \<Rightarrow> str"
  encode :: "str \<Rightarrow> bytes"
  isspace :: "int \<Rightarrow> bool"
  lower :: "str \<Rightarrow> str"
  upper :: "str \<Rightarrow> str"
  py_int :: "str \<Rightarrow> int option"
  ssize_max :: int
  alloc_max :: int

text \<open>\<^verbatim>\<open>s.strip()\<close> and \<^verbatim>\<open>s.split()\<close>, the maximal runs of code points that are not white space.\<close>

definition strip :: "runtime \<Rightarrow> str \<Rightarrow> str" where
  "strip rt s = rev (dropWhile (isspace rt) (rev (dropWhile (isspace rt) s)))"

fun split_ws_from :: "runtime \<Rightarrow> str \<Rightarrow> str \<Rightarrow> str list" where
  "split_ws_from rt cur [] = (if cur = [] then [] else [rev cur])"
| "split_ws_from rt cur (c # cs) =
     (if isspace rt c
      then (if cur = [] then split_ws_from rt [] cs else rev cur # split_ws_from rt [] cs)
      else split_ws_from rt (c # cur) cs)"

definition split_ws :: "runtime \<Rightarrow> str \<Rightarrow> str list" where
  "split_ws rt s = split_ws_from rt [] s"

text \<open>
  \<^verbatim>\<open>sub in s\<close> for a non-empty \<^verbatim>\<open>sub\<close>, and \<^verbatim>\<open>s.startswith(sub)\<close>, on text and on bytes.
\<close>

definition startswith :: "'a list \<Rightarrow> 'a list \<Rightarrow> bool" where
  "startswith s sub = (take (length sub) s = sub)"

fun contains :: "'a list \<Rightarrow> 'a list \<Rightarrow> bool" where
  "contains sub [] = (sub = [])"
| "contains sub (c # cs) = (startswith (c # cs) sub \<or> contains sub cs)"

text \<open>
  \<^verbatim>\<open>s.split(sep, n)\<close>: the pieces of \<open>s\<close> between the first \<open>n\<close> occurrences of \<open>sep\<close>,
  found from the left without overlap. The result is never empty. Every separator of
  the source is a non-empty literal.
\<close>

function splitn :: "'a list \<Rightarrow> nat \<Rightarrow> 'a list \<Rightarrow> 'a list list" where
  "splitn sep n [] = [[]]"
| "splitn sep n (c # cs) =
     (if sep \<noteq> [] \<and> 0 < n \<and> startswith (c # cs) sep
      then [] # splitn sep (n - 1) (drop (length sep) (c # cs))
      else (case splitn sep n cs of
              [] \<Rightarrow> [[c]]
            | p # ps \<Rightarrow> (c # p) # ps))"
  by pat_completeness auto
termination
  by (relation "measure (\<lambda>(sep, n, s). length s)") auto

text \<open>\<^verbatim>\<open>s.split(sep)\<close> has no limit: a string has fewer occurrences than code points.\<close>

definition split_all :: "'a list \<Rightarrow> 'a list \<Rightarrow> 'a list list" where
  "split_all sep s = splitn sep (length s) s"

section \<open>Headers\<close>

text \<open>
  A Python \<^verbatim>\<open>dict\<close> keeps its keys in the order of their first insertion; assigning to
  a key that is present replaces the value where it stands. The header mapping is
  therefore an association list.
\<close>

type_synonym headers = "(str \<times> str) list"

fun dict_set :: "str \<Rightarrow> str \<Rightarrow> headers \<Rightarrow> headers" where
  "dict_set k v [] = [(k, v)]"
| "dict_set k v ((k', v') # d) = (if k' = k then (k, v) # d else (k', v') # dict_set k v d)"

definition dict_has :: "headers \<Rightarrow> str \<Rightarrow> bool" where
  "dict_has d k = (map_of d k \<noteq> None)"

definition dict_get :: "headers \<Rightarrow> str \<Rightarrow> str \<Rightarrow> str" where
  "dict_get d k dflt = (case map_of d k of None \<Rightarrow> dflt | Some v \<Rightarrow> v)"

text \<open>
  The exceptions that can reach the handler. \<open>OSError\<close> stands for every failure of the
  socket layer that is not a timeout, \<open>OtherError\<close> for any exception not named here.
\<close>

datatype exn =
    SocketTimeout
  | ValueError
  | IndexError
  | OverflowError
  | MemoryError
  | OSError
  | OtherError

text \<open>
  \<^verbatim>\<open>parse_headers\<close>, lines 57 to 65. The two places where Python could raise, the index
  \<^verbatim>\<open>lines[0]\<close> and the unpacking of \<^verbatim>\<open>line.split(":", 1)\<close>, are branches of the model.
\<close>

fun header_loop :: "runtime \<Rightarrow> headers \<Rightarrow> str list \<Rightarrow> exn + headers" where
  "header_loop rt headers [] = Inr headers"
| "header_loop rt headers (line # rest) =
     (if contains (lit '':'') line
      then (case splitn (lit '':'') 1 line of
              [k, v] \<Rightarrow> header_loop rt (dict_set (lower rt k) (strip rt v) headers) rest
            | _ \<Rightarrow> Inl ValueError)
      else header_loop rt headers rest)"

definition parse_headers :: "runtime \<Rightarrow> bytes \<Rightarrow> exn + (str \<times> headers)" where
  "parse_headers rt header_bytes =
     (case split_all CRLF (decode rt header_bytes) of
        [] \<Rightarrow> Inl IndexError
      | request_line # rest \<Rightarrow>
          (case header_loop rt [] rest of
             Inl e \<Rightarrow> Inl e
           | Inr headers \<Rightarrow> Inr (request_line, headers)))"

section \<open>Sockets, the log and the world\<close>

text \<open>
  What the handler does to its surroundings is recorded as a trace of events, and what
  the surroundings do to the handler is read from scripts:
  \<^item> \<open>rx w s\<close> lists the results of the successive \<^verbatim>\<open>recv\<close> calls on socket \<open>s\<close>
    (\<open>Data []\<close> is a closed peer, \<open>Raises SocketTimeout\<close> a read that timed out);
  \<^item> \<open>selects w\<close> lists the results of the successive \<^verbatim>\<open>select\<close> calls, as the pair
    (client readable, server readable); neither readable is the idle timeout;
  \<^item> \<open>tx w s\<close> lists the outcomes of the successive \<^verbatim>\<open>sendall\<close> calls on \<open>s\<close>; a call
    beyond the list succeeds;
  \<^item> \<open>connect_result w\<close> is the outcome of \<^verbatim>\<open>socket.create_connection\<close>.
  A script is a finite prefix of what the peers do. A read or a select beyond its
  script has no result yet: the handler is blocked in that call, and the outcome of the
  run is \<open>Waits\<close>, in the world reached so far. An entry of a read script is what that
  call returned, so it is no longer than the size asked for. A read or a write that
  raises leaves no event. Closing a socket, selecting and writing the log are taken to
  succeed; setting a timeout leaves no event, its effect is in the read script. The log
  entries are the messages without the time and the client address, and an ERROR entry
  keeps the kind of the exception only.
\<close>

datatype sock = Client | Server

datatype rd = Data bytes | Raises exn

datatype log_event =
    BLOCKED str
  | CONNECT str int
  | ALLOWED str int str
  | ERROR exn

datatype event =
    Recv sock bytes
  | Send sock bytes
  | Select "sock list"
  | Connect str int
  | Close sock
  | Log log_event

record world =
  rx :: "sock \<Rightarrow> rd list"
  tx :: "sock \<Rightarrow> exn option list"
  selects :: "(bool \<times> bool) list"
  connect_result :: "exn option"
  trace :: "event list"

datatype 'a outcome = Returns 'a | Raised exn | Waits

type_synonym 'a io = "world \<Rightarrow> 'a outcome \<times> world"

definition io_ret :: "'a \<Rightarrow> 'a io" where
  "io_ret a w = (Returns a, w)"

definition io_raise :: "exn \<Rightarrow> 'a io" where
  "io_raise e w = (Raised e, w)"

definition io_bind :: "'a io \<Rightarrow> ('a \<Rightarrow> 'b io) \<Rightarrow> 'b io" where
  "io_bind m f w =
     (case m w of
        (Returns a, w') \<Rightarrow> f a w'
      | (Raised e, w') \<Rightarrow> (Raised e, w')
      | (Waits, w') \<Rightarrow> (Waits, w'))"

definition emit :: "event \<Rightarrow> world \<Rightarrow> world" where
  "emit e w = w\<lparr>trace := trace w @ [e]\<rparr>"

text \<open>
  \<^verbatim>\<open>s.recv(n)\<close>. Before anything is read, a size that is no \<^verbatim>\<open>ssize_t\<close> or exceeds the
  largest \<^verbatim>\<open>bytes\<close> object raises OverflowError, and a negative size raises ValueError.
  A buffer that cannot be allocated is a MemoryError of the script.
\<close>

definition recv :: "runtime \<Rightarrow> int \<Rightarrow> sock \<Rightarrow> bytes io" where
  "recv rt n s w =
     (if n < - ssize_max rt - 1 \<or> alloc_max rt < n then (Raised OverflowError, w)
      else if n < 0 then (Raised ValueError, w)
      else case rx w s of
             [] \<Rightarrow> (Waits, w)
           | Raises e # rest \<Rightarrow> (Raised e, w\<lparr>rx := (rx w)(s := rest)\<rparr>)
           | Data d # rest \<Rightarrow> (Returns d, emit (Recv s d) (w\<lparr>rx := (rx w)(s := rest)\<rparr>)))"

definition sendall :: "sock \<Rightarrow> bytes \<Rightarrow> unit io" where
  "sendall s d w =
     (case tx w s of
        [] \<Rightarrow> (Returns (), emit (Send s d) w)
      | None # rest \<Rightarrow> (Returns (), emit (Send s d) (w\<lparr>tx := (tx w)(s := rest)\<rparr>))
      | Some e # rest \<Rightarrow> (Raised e, w\<lparr>tx := (tx w)(s := rest)\<rparr>))"

text \<open>\<^verbatim>\<open>select.select([client, server], [], [], timeout)\<close> returns the readable ones in this order.\<close>

fun readable :: "bool \<times> bool \<Rightarrow> sock list" where
  "readable (c, s) = (if c then [Client] else []) @ (if s then [Server] else [])"

definition select :: "sock list io" where
  "select w =
     (case selects w of
        [] \<Rightarrow> (Waits, w)
      | x # rest \<Rightarrow> (Returns (readable x), emit (Select (readable x)) (w\<lparr>selects := rest\<rparr>)))"

definition create_connection :: "str \<Rightarrow> int \<Rightarrow> unit io" where
  "create_connection host port w =
     (case connect_result w of
        Some e \<Rightarrow> (Raised e, w)
      | None \<Rightarrow> (Returns (), emit (Connect host port) w))"

definition close :: "sock \<Rightarrow> unit io" where
  "close s w = (Returns (), emit (Close s) w)"

definition log :: "log_event \<Rightarrow> unit io" where
  "log msg w = (Returns (), emit (Log msg) w)"

section \<open>Reading the header block\<close>

text \<open>
  \<^verbatim>\<open>recv_until\<close>, lines 47 to 54: the loop reads until the delimiter is in the data or
  the peer has closed. \<open>recv_until_from\<close> is the loop with its variable \<^verbatim>\<open>data\<close>.
\<close>

function recv_until_from :: "runtime \<Rightarrow> int \<Rightarrow> sock \<Rightarrow> bytes \<Rightarrow> bytes \<Rightarrow> bytes io" where
  "recv_until_from rt bufsize s delimiter data w =
     (if contains delimiter data then (Returns data, w)
      else (case recv rt bufsize s w of
              (Returns chunk, w') \<Rightarrow>
                if chunk = [] then (Returns data, w')
                else recv_until_from rt bufsize s delimiter (data @ chunk) w'
            | (Raised e, w') \<Rightarrow> (Raised e, w')
            | (Waits, w') \<Rightarrow> (Waits, w')))"
  by pat_completeness auto
termination
  by (relation "measure (\<lambda>(rt, bufsize, s, delimiter, data, w). length (rx w s))")
     (auto simp: recv_def emit_def split: if_splits list.splits rd.splits)

definition recv_until :: "runtime \<Rightarrow> int \<Rightarrow> sock \<Rightarrow> bytes \<Rightarrow> bytes io" where
  "recv_until rt bufsize s delimiter = recv_until_from rt bufsize s delimiter []"

section \<open>The tunnel\<close>

text \<open>
  \<^verbatim>\<open>tunnel\<close>, lines 70 to 80. \<open>pump\<close> is the inner \<^verbatim>\<open>for s in r\<close>; it returns \<open>True\<close>
  when a read returned no bytes, which is the \<^verbatim>\<open>return\<close> of line 79.
\<close>

fun other :: "sock \<Rightarrow> sock" where
  "other Client = Server"
| "other Server = Client"

fun pump :: "runtime \<Rightarrow> int \<Rightarrow> sock list \<Rightarrow> bool io" where
  "pump rt bufsize [] w = (Returns False, w)"
| "pump rt bufsize (s # r) w =
     (case recv rt bufsize s w of
        (Returns data, w1) \<Rightarrow>
          if data = [] then (Returns True, w1)
          else (case sendall (other s) data w1 of
                  (Returns _, w2) \<Rightarrow> pump rt bufsize r w2
                | (Raised e, w2) \<Rightarrow> (Raised e, w2)
                | (Waits, w2) \<Rightarrow> (Waits, w2))
      | (Raised e, w1) \<Rightarrow> (Raised e, w1)
      | (Waits, w1) \<Rightarrow> (Waits, w1))"

function tunnel :: "runtime \<Rightarrow> int \<Rightarrow> unit io" where
  "tunnel rt bufsize w =
     (case select w of
        (Returns r, w1) \<Rightarrow>
          if r = [] then (Returns (), w1)
          else (case pump rt bufsize r w1 of
                  (Returns stop, w2) \<Rightarrow>
                    if stop then (Returns (), w2) else tunnel rt bufsize w2
                | (Raised e, w2) \<Rightarrow> (Raised e, w2)
                | (Waits, w2) \<Rightarrow> (Waits, w2))
      | (Raised e, w1) \<Rightarrow> (Raised e, w1)
      | (Waits, w1) \<Rightarrow> (Waits, w1))"
  by pat_completeness auto
termination
proof -
  have recv_selects: "selects w' = selects w" if "recv rt n s w = (x, w')" for rt n s w x w'
    using that by (auto simp: recv_def emit_def split: if_splits list.splits rd.splits)
  have sendall_selects: "selects w' = selects w" if "sendall s d w = (x, w')" for s d w x w'
    using that by (auto simp: sendall_def emit_def split: list.splits option.splits)
  have pump_selects: "selects w' = selects w" if "pump rt bufsize r w = (x, w')"
    for rt bufsize r w x w'
    using that
  proof (induction r arbitrary: w)
    case Nil
    then show ?case by simp
  next
    case (Cons s r)
    then show ?case
      by (auto split: prod.splits outcome.splits if_splits dest!: recv_selects sendall_selects)
  qed
  show ?thesis
  proof (relation "measure (\<lambda>(rt, bufsize, w). length (selects w))", goal_cases)
    case 1
    then show ?case by simp
  next
    case (2 rt bufsize w x1 w1 r x2 w2 stop)
    then have "selects w2 = selects w1"
      by (metis pump_selects)
    moreover from 2 have "length (selects w1) < length (selects w)"
      by (auto simp: select_def emit_def split: list.splits)
    ultimately show ?case by simp
  qed
qed

section \<open>The handler\<close>

text \<open>
  \<^verbatim>\<open>handle_client\<close>, lines 85 to 179. The blocklist that \<^verbatim>\<open>load_blocked_domains\<close> returns
  and \<^verbatim>\<open>CONFIG["BUFFER_SIZE"]\<close> are parameters. The pieces of the body are named after
  what they compute; each keeps the order of the source's statements.
\<close>

definition blocked_response :: bytes where
  "blocked_response = ''HTTP/1.1 403 Forbidden'' @ crlf @ crlf @ ''Blocked by proxy''"

definition established_response :: bytes where
  "established_response = ''HTTP/1.1 200 Connection Established'' @ crlf @ crlf"

text \<open>Lines 104 to 106: the destination of a CONNECT request, from its target.\<close>

definition connect_destination :: "runtime \<Rightarrow> str \<Rightarrow> exn + (str \<times> int)" where
  "connect_destination rt target =
     (case split_all (lit '':'') target of
        [dest_host, dest_port] \<Rightarrow>
          (case py_int rt dest_port of
             None \<Rightarrow> Inl ValueError
           | Some p \<Rightarrow> Inr (lower rt dest_host, p))
      | _ \<Rightarrow> Inl ValueError)"

text \<open>Lines 122 to 129: the destination of a plain request, from its Host header.\<close>

definition host_destination :: "runtime \<Rightarrow> headers \<Rightarrow> exn + (str \<times> int)" where
  "host_destination rt headers =
     (let host = dict_get headers (lit ''host'') [] in
      if contains (lit '':'') host
      then (case split_all (lit '':'') host of
              [h, port] \<Rightarrow>
                (case py_int rt port of
                   None \<Rightarrow> Inl ValueError
                 | Some p \<Rightarrow> Inr (lower rt h, p))
            | _ \<Rightarrow> Inl ValueError)
      else Inr (lower rt host, 80))"

text \<open>
  Lines 140 to 142: the request line that is forwarded. \<open>index\<close> is Python's
  \<^verbatim>\<open>xs[i]\<close> for \<open>i \<ge> 0\<close>.
\<close>

definition index :: "'a list \<Rightarrow> nat \<Rightarrow> exn + 'a" where
  "index xs i = (if i < length xs then Inr (xs ! i) else Inl IndexError)"

definition origin_path :: "str \<Rightarrow> exn + str" where
  "origin_path target =
     (if contains (lit ''/'') (drop 7 target)
      then (case index (splitn (lit ''/'') 3 target) 3 of
              Inl e \<Rightarrow> Inl e
            | Inr rest \<Rightarrow> Inr (lit ''/'' @ rest))
      else Inr (lit ''/''))"

definition rewrite_request_line :: "str \<Rightarrow> str \<Rightarrow> str \<Rightarrow> str \<Rightarrow> exn + str" where
  "rewrite_request_line method target version request_line =
     (if startswith target (lit ''http://'')
      then (case origin_path target of
              Inl e \<Rightarrow> Inl e
            | Inr path \<Rightarrow> Inr (method @ lit '' '' @ path @ lit '' '' @ version))
      else Inr request_line)"

text \<open>Lines 144 to 147: the text that is sent upstream.\<close>

definition forward_text :: "str \<Rightarrow> headers \<Rightarrow> str" where
  "forward_text request_line headers =
     foldl (\<lambda>forward (k, v). forward @ k @ lit '': '' @ v @ CRLF) (request_line @ CRLF) headers
     @ CRLF"

text \<open>Lines 155 to 158: one read of the announced length, sent on as it is.\<close>

definition forward_body :: "runtime \<Rightarrow> headers \<Rightarrow> unit io" where
  "forward_body rt headers =
     (if dict_has headers (lit ''content-length'')
      then (case py_int rt (dict_get headers (lit ''content-length'') []) of
              None \<Rightarrow> io_raise ValueError
            | Some len \<Rightarrow> io_bind (recv rt len Client) (\<lambda>body. sendall Server body))
      else io_ret ())"

text \<open>
  Lines 160 to 167: the response loop. The \<^verbatim>\<open>try\<close> inside the loop covers the read and
  the write, and turns a timeout of either into the end of the loop.
\<close>

function relay_response :: "runtime \<Rightarrow> int \<Rightarrow> unit io" where
  "relay_response rt bufsize w =
     (case recv rt bufsize Server w of
        (Returns data, w1) \<Rightarrow>
          if data = [] then (Returns (), w1)
          else (case sendall Client data w1 of
                  (Returns _, w2) \<Rightarrow> relay_response rt bufsize w2
                | (Raised e, w2) \<Rightarrow>
                    if e = SocketTimeout then (Returns (), w2) else (Raised e, w2)
                | (Waits, w2) \<Rightarrow> (Waits, w2))
      | (Raised e, w1) \<Rightarrow> if e = SocketTimeout then (Returns (), w1) else (Raised e, w1)
      | (Waits, w1) \<Rightarrow> (Waits, w1))"
  by pat_completeness auto
termination
  by (relation "measure (\<lambda>(rt, bufsize, w). length (rx w Server))")
     (auto simp: recv_def sendall_def emit_def
           split: if_splits list.splits rd.splits option.splits)

text \<open>Lines 103 to 119.\<close>

definition handle_connect :: "runtime \<Rightarrow> int \<Rightarrow> str set \<Rightarrow> str \<Rightarrow> unit io" where
  "handle_connect rt bufsize blocked target =
     (case connect_destination rt target of
        Inl e \<Rightarrow> io_raise e
      | Inr (dest_host, dest_port) \<Rightarrow>
          if dest_host \<in> blocked
          then io_bind (sendall Client blocked_response) (\<lambda>_. log (BLOCKED dest_host))
          else io_bind (create_connection dest_host dest_port) (\<lambda>_.
               io_bind (sendall Client established_response) (\<lambda>_.
               io_bind (log (CONNECT dest_host dest_port)) (\<lambda>_.
               io_bind (tunnel rt bufsize) (\<lambda>_.
               close Server)))))"

text \<open>Lines 122 to 169.\<close>

definition handle_forward ::
  "runtime \<Rightarrow> int \<Rightarrow> str set \<Rightarrow> str \<Rightarrow> str \<Rightarrow> str \<Rightarrow> str \<Rightarrow> headers \<Rightarrow> unit io" where
  "handle_forward rt bufsize blocked method target version request_line headers =
     (case host_destination rt headers of
        Inl e \<Rightarrow> io_raise e
      | Inr (host, port) \<Rightarrow>
          if host \<in> blocked
          then io_bind (sendall Client blocked_response) (\<lambda>_. log (BLOCKED host))
          else io_bind (create_connection host port) (\<lambda>_.
               case rewrite_request_line method target version request_line of
                 Inl e \<Rightarrow> io_raise e
               | Inr request_line' \<Rightarrow>
                   io_bind (sendall Server (encode rt (forward_text request_line' headers))) (\<lambda>_.
                   io_bind (log (ALLOWED host port request_line')) (\<lambda>_.
                   io_bind (forward_body rt headers) (\<lambda>_.
                   io_bind (relay_response rt bufsize) (\<lambda>_.
                   close Server))))))"

text \<open>Lines 90 to 169, the body of the \<^verbatim>\<open>try\<close>.\<close>

definition handle_request :: "runtime \<Rightarrow> int \<Rightarrow> str set \<Rightarrow> unit io" where
  "handle_request rt bufsize blocked =
     io_bind (recv_until rt bufsize Client (crlf @ crlf)) (\<lambda>header_data.
       if header_data = [] then io_ret ()
       else (case parse_headers rt header_data of
               Inl e \<Rightarrow> io_raise e
             | Inr (request_line, headers) \<Rightarrow>
                 (let parts = split_ws rt request_line in
                  if length parts < 3 then io_ret ()
                  else (case parts of
                          [method, target, version] \<Rightarrow>
                            (let method = upper rt method in
                             if method = lit ''CONNECT''
                             then handle_connect rt bufsize blocked target
                             else handle_forward rt bufsize blocked method target version
                                    request_line headers)
                        | _ \<Rightarrow> io_raise ValueError))))"

text \<open>
  Lines 171 to 179, what happens to the outcome of the \<^verbatim>\<open>try\<close> body: a timeout is
  passed over, any other exception is logged, and the client socket is closed in either
  case and after a return. A handler that is blocked in a call has not got there.
\<close>

definition on_exit :: "unit outcome \<times> world \<Rightarrow> unit outcome \<times> world" where
  "on_exit result =
     (case result of
        (Returns _, w1) \<Rightarrow> close Client w1
      | (Raised e, w1) \<Rightarrow>
          if e = SocketTimeout then close Client w1
          else io_bind (log (ERROR e)) (\<lambda>_. close Client) w1
      | (Waits, w1) \<Rightarrow> (Waits, w1))"

definition handle_client :: "runtime \<Rightarrow> int \<Rightarrow> str set \<Rightarrow> unit io" where
  "handle_client rt bufsize blocked w = on_exit (handle_request rt bufsize blocked w)"

section \<open>A runtime for evaluation\<close>

text \<open>
  \<open>py_ascii\<close> is CPython 3.11 on a 64-bit platform, as far as it is used below: its
  \<open>decode\<close>, \<open>encode\<close> and \<open>isspace\<close> are the interpreter's on every input (UTF-8, where
  each malformed sequence is left out as the decoder delimits it), and its case
  mappings and its \<open>py_int\<close> are the interpreter's on ASCII text. It is applied to ASCII
  requests, and to bytes that are not UTF-8 where only the decoder matters.
\<close>

definition cont :: "int \<Rightarrow> bool" where
  "cont b = (0x80 \<le> b \<and> b < 0xC0)"

fun utf8_ignore :: "int list \<Rightarrow> int list" where
  "utf8_ignore [] = []"
| "utf8_ignore (b # bs) =
     (if b < 0x80 then b # utf8_ignore bs
      else if b < 0xC2 then utf8_ignore bs
      else if b < 0xE0 then
        (case bs of
           [] \<Rightarrow> []
         | b2 # r2 \<Rightarrow>
             if cont b2 then ((b - 0xC0) * 64 + (b2 - 0x80)) # utf8_ignore r2
             else utf8_ignore bs)
      else if b < 0xF0 then
        (case bs of
           [] \<Rightarrow> []
         | b2 # r2 \<Rightarrow>
             if \<not> cont b2 \<or> (b = 0xE0 \<and> b2 < 0xA0) \<or> (b = 0xED \<and> 0xA0 \<le> b2)
             then utf8_ignore bs
             else (case r2 of
                     [] \<Rightarrow> []
                   | b3 # r3 \<Rightarrow>
                       if cont b3
                       then ((b - 0xE0) * 4096 + (b2 - 0x80) * 64 + (b3 - 0x80)) # utf8_ignore r3
                       else utf8_ignore r2))
      else if b < 0xF5 then
        (case bs of
           [] \<Rightarrow> []
         | b2 # r2 \<Rightarrow>
             if \<not> cont b2 \<or> (b = 0xF0 \<and> b2 < 0x90) \<or> (b = 0xF4 \<and> 0x90 \<le> b2)
             then utf8_ignore bs
             else (case r2 of
                     [] \<Rightarrow> []
                   | b3 # r3 \<Rightarrow>
                       if \<not> cont b3 then utf8_ignore r2
                       else (case r3 of
                               [] \<Rightarrow> []
                             | b4 # r4 \<Rightarrow>
                                 if cont b4
                                 then ((b - 0xF0) * 262144 + (b2 - 0x80) * 4096 +
                                       (b3 - 0x80) * 64 + (b4 - 0x80)) # utf8_ignore r4
                                 else utf8_ignore r3)))
      else utf8_ignore bs)"

fun utf8_encode :: "int list \<Rightarrow> int list" where
  "utf8_encode [] = []"
| "utf8_encode (c # cs) =
     (if c < 0x80 then [c]
      else if c < 0x800 then [0xC0 + c div 64, 0x80 + c mod 64]
      else if c < 0x10000 then [0xE0 + c div 4096, 0x80 + c div 64 mod 64, 0x80 + c mod 64]
      else [0xF0 + c div 262144, 0x80 + c div 4096 mod 64, 0x80 + c div 64 mod 64,
            0x80 + c mod 64])
     @ utf8_encode cs"

definition py_isspace :: "int \<Rightarrow> bool" where
  "py_isspace c =
     ((0x09 \<le> c \<and> c \<le> 0x0D) \<or> (0x1C \<le> c \<and> c \<le> 0x20) \<or> c = 0x85 \<or> c = 0xA0 \<or>
      c = 0x1680 \<or> (0x2000 \<le> c \<and> c \<le> 0x200A) \<or> c = 0x2028 \<or> c = 0x2029 \<or>
      c = 0x202F \<or> c = 0x205F \<or> c = 0x3000)"

definition ascii_lower :: "str \<Rightarrow> str" where
  "ascii_lower s = map (\<lambda>c. if 65 \<le> c \<and> c \<le> 90 then c + 32 else c) s"

definition ascii_upper :: "str \<Rightarrow> str" where
  "ascii_upper s = map (\<lambda>c. if 97 \<le> c \<and> c \<le> 122 then c - 32 else c) s"

text \<open>
  \<^verbatim>\<open>int(s)\<close> in base 10 on ASCII text: blanks around (tab to carriage return, and
  space), an optional sign, then at most 4300 digits in which single underscores may
  stand between two digits.
\<close>

definition int_blank :: "int \<Rightarrow> bool" where
  "int_blank c = ((9 \<le> c \<and> c \<le> 13) \<or> c = 32)"

definition isdigit :: "int \<Rightarrow> bool" where
  "isdigit c = (48 \<le> c \<and> c \<le> 57)"

fun digits_from :: "int \<Rightarrow> str \<Rightarrow> int option" where
  "digits_from acc [] = None"
| "digits_from acc [c] = (if isdigit c then Some (acc * 10 + (c - 48)) else None)"
| "digits_from acc (c # d # cs) =
     (if isdigit c then
        (if d = 95 then
           (case cs of [] \<Rightarrow> None
            | e # es \<Rightarrow> if isdigit e then digits_from (acc * 10 + (c - 48)) cs else None)
         else digits_from (acc * 10 + (c - 48)) (d # cs))
      else None)"

definition ascii_int :: "str \<Rightarrow> int option" where
  "ascii_int s =
     (case rev (dropWhile int_blank (rev (dropWhile int_blank s))) of
        [] \<Rightarrow> None
      | c # cs \<Rightarrow>
          if 4300 < int (length (filter isdigit (c # cs))) then None
          else if c = 45 then map_option uminus (digits_from 0 cs)
          else if c = 43 then digits_from 0 cs
          else digits_from 0 (c # cs))"

definition py_ascii :: runtime where
  "py_ascii =
     \<lparr>decode = (\<lambda>b. utf8_ignore (map of_char b)),
      encode = (\<lambda>s. map char_of (utf8_encode s)),
      isspace = py_isspace,
      lower = ascii_lower,
      upper = ascii_upper,
      py_int = ascii_int,
      ssize_max = 9223372036854775807,
      alloc_max = 9223372036854775774\<rparr>"

text \<open>
  \<open>script_world c s sel cr\<close> is the world at the start of a connection in which the
  client's reads will return \<open>c\<close>, the upstream's \<open>s\<close>, the selects \<open>sel\<close>, the
  connection attempt \<open>cr\<close>, and every write succeeds. \<open>run\<close> is the handler in such a
  world, with the default buffer size, reduced to its outcome and its trace.
\<close>

definition script_world :: "rd list \<Rightarrow> rd list \<Rightarrow> (bool \<times> bool) list \<Rightarrow> exn option \<Rightarrow> world" where
  "script_world c s sel cr =
     \<lparr>rx = (\<lambda>x. case x of Client \<Rightarrow> c | Server \<Rightarrow> s), tx = (\<lambda>x. []), selects = sel,
      connect_result = cr, trace = []\<rparr>"

definition run :: "str set \<Rightarrow> world \<Rightarrow> unit outcome \<times> event list" where
  "run blocked w = (case handle_client py_ascii 4096 blocked w of (r, w') \<Rightarrow> (r, trace w'))"

section \<open>Notions used to state the properties\<close>

text \<open>
  The tokens of a text, in the words of the specification: its maximal runs of code
  points that are not white space, from left to right.
\<close>

function tokens :: "runtime \<Rightarrow> str \<Rightarrow> str list" where
  "tokens rt s =
     (case dropWhile (isspace rt) s of
        [] \<Rightarrow> []
      | c # cs \<Rightarrow>
          takeWhile (\<lambda>x. \<not> isspace rt x) (c # cs) #
          tokens rt (dropWhile (\<lambda>x. \<not> isspace rt x) (c # cs)))"
  by pat_completeness auto
termination
proof (relation "measure (\<lambda>(rt, s). length s)", goal_cases)
  case 1
  then show ?case by simp
next
  case (2 rt s c cs)
  have "\<not> isspace rt c"
    using hd_dropWhile[of "isspace rt" s] 2 by simp
  then have "length (dropWhile (\<lambda>x. \<not> isspace rt x) (c # cs)) \<le> length cs"
    by (simp add: length_dropWhile_le)
  moreover have "length (c # cs) \<le> length s"
    using length_dropWhile_le[of "isspace rt" s] 2 by simp
  ultimately show ?case by simp
qed

text \<open>
  \<open>is_trimmed rt raw v\<close>: \<open>v\<close> is \<open>raw\<close> without the white space at its two ends.
\<close>

definition is_trimmed :: "runtime \<Rightarrow> str \<Rightarrow> str \<Rightarrow> bool" where
  "is_trimmed rt raw v \<longleftrightarrow>
     (\<exists>pre post. raw = pre @ v @ post \<and> list_all (isspace rt) pre \<and> list_all (isspace rt) post) \<and>
     (v = [] \<or> (\<not> isspace rt (hd v) \<and> \<not> isspace rt (last v)))"

text \<open>
  The raw name and the raw value of a header line are the text before its first colon
  and the text after it. \<open>header_lines\<close> are the lines of a header block after the
  request line that contain a colon. \<open>first_occurrences\<close> keeps, of every element of a
  list, the first occurrence only.
\<close>

definition colon :: int where
  "colon = of_char CHR '':''"

definition slash :: int where
  "slash = of_char CHR ''/''"

definition raw_name :: "str \<Rightarrow> str" where
  "raw_name line = takeWhile (\<lambda>c. c \<noteq> colon) line"

definition raw_value :: "str \<Rightarrow> str" where
  "raw_value line = tl (dropWhile (\<lambda>c. c \<noteq> colon) line)"

definition header_lines :: "runtime \<Rightarrow> bytes \<Rightarrow> str list" where
  "header_lines rt header_bytes =
     filter (\<lambda>line. colon \<in> set line) (tl (split_all CRLF (decode rt header_bytes)))"

definition first_occurrences :: "'a list \<Rightarrow> 'a list" where
  "first_occurrences xs = rev (remdups (rev xs))"

text \<open>
  \<open>send_ok s w\<close>: the next \<^verbatim>\<open>sendall\<close> on \<open>s\<close> succeeds. \<open>after_nth c n s\<close> is what
  follows the \<open>n\<close>-th occurrence of the code point \<open>c\<close> in \<open>s\<close>, if there are that many.
\<close>

definition send_ok :: "sock \<Rightarrow> world \<Rightarrow> bool" where
  "send_ok s w = (case tx w s of [] \<Rightarrow> True | r # _ \<Rightarrow> r = None)"

fun after_nth :: "int \<Rightarrow> nat \<Rightarrow> str \<Rightarrow> str option" where
  "after_nth c 0 s = Some s"
| "after_nth c (Suc n) [] = None"
| "after_nth c (Suc n) (x # xs) = (if x = c then after_nth c n xs else after_nth c (Suc n) xs)"

text \<open>
  The origin-form path in the specification's words: everything after the third slash
  of the target behind a slash, and a lone slash when the target has no third slash.
\<close>

definition spec_path :: "str \<Rightarrow> str" where
  "spec_path target = (case after_nth slash 3 target of Some rest \<Rightarrow> slash # rest | None \<Rightarrow> [slash])"

text \<open>
  For the tunnel: an event that ends the relay is a select that found no socket readable
  or a read of no bytes. \<open>sent_to s evs\<close> lists the chunks written to \<open>s\<close> in \<open>evs\<close>,
  \<open>read_from s evs\<close> the non-empty chunks read from \<open>s\<close>, both in order; \<open>relayed evs\<close>
  says that what was written to each socket is what was read from the other.
  \<open>select_events\<close> and \<open>recv_events\<close> list the results of the selects and of the reads
  in \<open>evs\<close>, and \<open>data_of\<close> the chunks of a read script.
\<close>

fun relay_stop :: "event \<Rightarrow> bool" where
  "relay_stop (Select r) = (r = [])"
| "relay_stop (Recv s d) = (d = [])"
| "relay_stop (Send s d) = False"
| "relay_stop (Connect h p) = False"
| "relay_stop (Close s) = False"
| "relay_stop (Log m) = False"

definition sent_to :: "sock \<Rightarrow> event list \<Rightarrow> bytes list" where
  "sent_to s evs =
     concat (map (\<lambda>e. case e of Send s' d \<Rightarrow> if s' = s then [d] else [] | _ \<Rightarrow> []) evs)"

definition read_from :: "sock \<Rightarrow> event list \<Rightarrow> bytes list" where
  "read_from s evs =
     concat (map (\<lambda>e. case e of Recv s' d \<Rightarrow> if s' = s \<and> d \<noteq> [] then [d] else [] | _ \<Rightarrow> []) evs)"

definition relayed :: "event list \<Rightarrow> bool" where
  "relayed evs \<longleftrightarrow>
     sent_to Server evs = read_from Client evs \<and> sent_to Client evs = read_from Server evs"

definition select_events :: "event list \<Rightarrow> sock list list" where
  "select_events evs = concat (map (\<lambda>e. case e of Select r \<Rightarrow> [r] | _ \<Rightarrow> []) evs)"

definition recv_events :: "sock \<Rightarrow> event list \<Rightarrow> bytes list" where
  "recv_events s evs =
     concat (map (\<lambda>e. case e of Recv s' d \<Rightarrow> if s' = s then [d] else [] | _ \<Rightarrow> []) evs)"

definition data_of :: "rd list \<Rightarrow> bytes list" where
  "data_of rs = concat (map (\<lambda>r. case r of Data d \<Rightarrow> [d] | Raises e \<Rightarrow> []) rs)"

text \<open>The first line of a text: what stands before its first CRLF.\<close>

fun first_line :: "str \<Rightarrow> str" where
  "first_line [] = []"
| "first_line (c # cs) = (if startswith (c # cs) CRLF then [] else c # first_line cs)"

section \<open>Strings and the header mapping\<close>

lemma lit_colon: "lit '':'' = [colon]"
  by (simp add: lit_def colon_def)

lemma lit_slash: "lit ''/'' = [slash]"
  by (simp add: lit_def slash_def)

lemma contains_char: "contains [c] s \<longleftrightarrow> c \<in> set s"
  by (induction s) (auto simp: startswith_def)

lemma splitn_zero: "splitn sep 0 s = [s]"
  by (induction s) auto

lemma splitn_nonempty: "splitn sep n s \<noteq> []"
  by (induction sep n s rule: splitn.induct) (auto split: list.splits)

lemma splitn_char_absent: "c \<notin> set s \<Longrightarrow> splitn [c] n s = [s]"
  by (induction s) (auto simp: startswith_def)

lemma splitn_char_once:
  "c \<in> set s \<Longrightarrow>
   splitn [c] (Suc 0) s = [takeWhile (\<lambda>x. x \<noteq> c) s, tl (dropWhile (\<lambda>x. x \<noteq> c) s)]"
  by (induction s) (auto simp: startswith_def splitn_zero)

lemma split_ws_from_tokens:
  "split_ws_from rt cur s =
     (if cur = [] then tokens rt s
      else (rev cur @ takeWhile (\<lambda>x. \<not> isspace rt x) s) #
           tokens rt (dropWhile (\<lambda>x. \<not> isspace rt x) s))"
proof (induction s arbitrary: cur)
  case Nil
  then show ?case by simp
next
  case (Cons c s)
  show ?case
  proof (cases "isspace rt c")
    case True
    then have "tokens rt (c # s) = tokens rt s"
      by (subst (1 2) tokens.simps) simp
    with True Cons.IH[of "[]"] show ?thesis by simp
  next
    case False
    then have "tokens rt (c # s) =
        takeWhile (\<lambda>x. \<not> isspace rt x) (c # s) # tokens rt (dropWhile (\<lambda>x. \<not> isspace rt x) (c # s))"
      by (subst tokens.simps) simp
    with False Cons.IH[of "c # cur"] show ?thesis by simp
  qed
qed

lemma split_ws_tokens: "split_ws rt s = tokens rt s"
  by (simp add: split_ws_def split_ws_from_tokens)

lemma strip_is_trimmed: "is_trimmed rt raw (strip rt raw)"
proof -
  define u where "u = dropWhile (isspace rt) raw"
  define w where "w = dropWhile (isspace rt) (rev u)"
  have v: "strip rt raw = rev w"
    by (simp add: strip_def u_def w_def)
  have r1: "raw = takeWhile (isspace rt) raw @ u"
    by (simp add: u_def)
  have r2: "rev u = takeWhile (isspace rt) (rev u) @ w"
    by (simp add: w_def)
  then have "u = rev w @ rev (takeWhile (isspace rt) (rev u))"
    by (metis rev_append rev_rev_ident)
  with r1 have "raw = takeWhile (isspace rt) raw @ rev w @ rev (takeWhile (isspace rt) (rev u))"
    by simp
  moreover have "list_all (isspace rt) (takeWhile (isspace rt) raw)"
    by (simp add: list_all_iff) (meson set_takeWhileD)
  moreover have "list_all (isspace rt) (rev (takeWhile (isspace rt) (rev u)))"
    by (simp add: list_all_iff) (meson set_takeWhileD)
  moreover have "rev w = [] \<or> (\<not> isspace rt (hd (rev w)) \<and> \<not> isspace rt (last (rev w)))"
  proof (cases "w = []")
    case True
    then show ?thesis by simp
  next
    case False
    from r2 False have "last w = last (rev u)"
      by (metis last_appendR)
    moreover from False have "u \<noteq> []"
      by (auto simp: w_def)
    ultimately have "last w = hd u"
      by (simp add: last_rev)
    moreover from \<open>u \<noteq> []\<close> have "\<not> isspace rt (hd u)"
      unfolding u_def by (rule hd_dropWhile)
    moreover from False have "\<not> isspace rt (hd w)"
      unfolding w_def by (rule hd_dropWhile)
    ultimately show ?thesis
      using False by (simp add: hd_rev last_rev)
  qed
  ultimately show ?thesis
    unfolding is_trimmed_def v by blast
qed

lemma header_loop_fold:
  "header_loop rt d ls =
     Inr (foldl (\<lambda>d l. dict_set (lower rt (raw_name l)) (strip rt (raw_value l)) d) d
            (filter (\<lambda>line. colon \<in> set line) ls))"
  by (induction ls arbitrary: d)
     (auto simp: lit_colon contains_char splitn_char_once raw_name_def raw_value_def)

lemma dict_set_keys:
  "map fst (dict_set k v d) = (if k \<in> set (map fst d) then map fst d else map fst d @ [k])"
  by (induction d) (force+)

lemma dict_set_map_of: "map_of (dict_set k v d) = (map_of d)(k \<mapsto> v)"
  by (induction d) auto

lemma dict_set_subset: "set (dict_set k v d) \<subseteq> insert (k, v) (set d)"
  by (induction d) (auto split: if_splits)

lemma first_occurrences_snoc:
  "first_occurrences (xs @ [x]) =
     (if x \<in> set xs then first_occurrences xs else first_occurrences xs @ [x])"
  by (simp add: first_occurrences_def)

lemma set_first_occurrences: "set (first_occurrences xs) = set xs"
  by (simp add: first_occurrences_def)

lemma distinct_first_occurrences: "distinct (first_occurrences xs)"
  by (simp add: first_occurrences_def)

lemma fold_dict_set_keys:
  "map fst (foldl (\<lambda>d l. dict_set (f l) (g l) d) [] ls) = first_occurrences (map f ls)"
  by (induction ls rule: rev_induct)
     (auto simp: dict_set_keys first_occurrences_snoc set_first_occurrences first_occurrences_def)

lemma fold_dict_set_map_of:
  "map_of (foldl (\<lambda>d l. dict_set (f l) (g l) d) [] ls) = map_of (rev (map (\<lambda>l. (f l, g l)) ls))"
  by (induction ls rule: rev_induct) (auto simp: dict_set_map_of)

lemma fold_dict_set_subset:
  "set (foldl (\<lambda>d l. dict_set (f l) (g l) d) d0 ls) \<subseteq> set d0 \<union> (\<lambda>l. (f l, g l)) ` set ls"
proof (induction ls arbitrary: d0)
  case Nil
  then show ?case by simp
next
  case (Cons l ls)
  from Cons.IH[of "dict_set (f l) (g l) d0"] dict_set_subset[of "f l" "g l" d0]
  show ?case by auto
qed

lemma forward_text_concat:
  "forward_text request_line headers =
     request_line @ CRLF @ concat (map (\<lambda>(k, v). k @ lit '': '' @ v @ CRLF) headers) @ CRLF"
proof -
  have "foldl (\<lambda>forward (k, v). forward @ k @ lit '': '' @ v @ CRLF) acc hs =
        acc @ concat (map (\<lambda>(k, v). k @ lit '': '' @ v @ CRLF) hs)" for acc hs
    by (induction hs arbitrary: acc) auto
  then show ?thesis by (simp add: forward_text_def)
qed

lemma parse_headers_eq:
  "parse_headers rt bs =
     Inr (hd (split_all CRLF (decode rt bs)),
          foldl (\<lambda>d l. dict_set (lower rt (raw_name l)) (strip rt (raw_value l)) d) []
            (header_lines rt bs))"
  using splitn_nonempty[of CRLF "length (decode rt bs)" "decode rt bs"]
  by (auto simp: parse_headers_def header_loop_fold header_lines_def split_all_def
           split: list.splits)

text \<open>
  C10. Whatever bytes it is given, and whatever the decoder makes of them,
  \<open>parse_headers\<close> returns a request line and a header mapping. The names of the mapping
  are the lower-cased raw names of the header lines, each once, in the order of their
  first occurrences; the value of a name is the stripped raw value of the last line with
  this lower-cased name; and the forwarded text lists the mapping as it stands, so a
  name that occurs several times, in whatever case, appears in it once, where it first
  occurred.
\<close>

theorem parse_headers_duplicates:
  "\<exists>request_line headers.
     parse_headers rt header_bytes = Inr (request_line, headers) \<and>
     map fst headers =
       first_occurrences (map (\<lambda>l. lower rt (raw_name l)) (header_lines rt header_bytes)) \<and>
     distinct (map fst headers) \<and>
     map_of headers =
       map_of (rev (map (\<lambda>l. (lower rt (raw_name l), strip rt (raw_value l)))
                      (header_lines rt header_bytes))) \<and>
     (\<forall>line. forward_text line headers =
        line @ CRLF @ concat (map (\<lambda>(k, v). k @ lit '': '' @ v @ CRLF) headers) @ CRLF)"
  by (simp add: parse_headers_eq fold_dict_set_keys fold_dict_set_map_of
        distinct_first_occurrences forward_text_concat)

text \<open>
  The theorem at a header block in which \<^verbatim>\<open>Host\<close> and \<^verbatim>\<open>X-Id\<close> occur twice, in
  different cases, and which contains two bytes that are not UTF-8: the decoder leaves
  them out, each name is kept once at its first place, with its last value.
\<close>

theorem parse_headers_duplicates_witness:
  "parse_headers py_ascii
     (''GET / HTTP/1.1'' @ crlf @ ''Host: a'' @ crlf @ ''X-Id: 1'' @ crlf @ ''HOST: b'' @ crlf @
      [CHR 0xFF, CHR 0xC3] @ ''x-id:  2 '' @ crlf @ crlf) =
     Inr (lit ''GET / HTTP/1.1'', [(lit ''host'', lit ''b''), (lit ''x-id'', lit ''2'')]) \<and>
   map fst [(lit ''host'', lit ''b''), (lit ''x-id'', lit ''2'')] =
     first_occurrences (map (\<lambda>l. lower py_ascii (raw_name l))
       (header_lines py_ascii
          (''GET / HTTP/1.1'' @ crlf @ ''Host: a'' @ crlf @ ''X-Id: 1'' @ crlf @ ''HOST: b'' @ crlf @
           [CHR 0xFF, CHR 0xC3] @ ''x-id:  2 '' @ crlf @ crlf))) \<and>
   forward_text (lit ''GET / HTTP/1.1'') [(lit ''host'', lit ''b''), (lit ''x-id'', lit ''2'')] =
     lit (''GET / HTTP/1.1'' @ crlf @ ''host: b'' @ crlf @ ''x-id: 2'' @ crlf @ crlf)"
proof -
  let ?b = "''GET / HTTP/1.1'' @ crlf @ ''Host: a'' @ crlf @ ''X-Id: 1'' @ crlf @ ''HOST: b'' @ crlf @
            [CHR 0xFF, CHR 0xC3] @ ''x-id:  2 '' @ crlf @ crlf"
  have e: "parse_headers py_ascii ?b =
             Inr (lit ''GET / HTTP/1.1'', [(lit ''host'', lit ''b''), (lit ''x-id'', lit ''2'')])"
    by code_simp
  have f: "forward_text (lit ''GET / HTTP/1.1'') [(lit ''host'', lit ''b''), (lit ''x-id'', lit ''2'')] =
             lit (''GET / HTTP/1.1'' @ crlf @ ''host: b'' @ crlf @ ''x-id: 2'' @ crlf @ crlf)"
    by code_simp
  from parse_headers_duplicates[of py_ascii ?b] e f show ?thesis
    by auto
qed

end
